theory Spec2Isabelle
  imports Complex_Main "HOL-Library.Log_Nat"
begin

section \<open>Portfolio accounting of the backtester\<close>

text \<open>
  The embedding follows \<^verbatim>\<open>src/backtester.py\<close> (class \<^verbatim>\<open>Backtester\<close>) and
  \<^verbatim>\<open>src/data/cache.py\<close> (class \<^verbatim>\<open>Cache\<close>).

  Numbers: share counts are Python \<^verbatim>\<open>int\<close>s and are modelled as \<^typ>\<open>int\<close>.  Cash,
  prices, cost bases and margins are Python \<^verbatim>\<open>float\<close>s.  The first model below reads
  the arithmetic of the code over the exact \<^typ>\<open>real\<close> numbers; it serves the
  statements about the formulas that the code computes.  The second model, in the section
  on binary64 arithmetic, rounds every operation to a double as Python does; it serves the
  statements about exact equalities and signs of the stored numbers, which rounding can
  break.  A Python exception is a value \<open>Inl e\<close>; a call that
  raises leaves the state it was given untouched (every raise of the modelled code happens
  before its first assignment).
\<close>

datatype py_error = KeyError | ZeroDivisionError

subsection \<open>Data model\<close>

text \<open>The per-ticker dictionary stored under \<^verbatim>\<open>portfolio["positions"][ticker]\<close>.\<close>

record position =
  long :: int
  short :: int
  long_cost_basis :: real
  short_cost_basis :: real
  short_margin_used :: real

text \<open>The per-ticker dictionary stored under \<^verbatim>\<open>portfolio["realized_gains"][ticker]\<close>;
  its keys \<^verbatim>\<open>"long"\<close> and \<^verbatim>\<open>"short"\<close> are the fields \<open>gain_long\<close> and \<open>gain_short\<close>.\<close>

record gains =
  gain_long :: real
  gain_short :: real

record portfolio =
  cash :: real
  margin_used :: real
  margin_requirement :: real
  positions :: "string \<rightharpoonup> position"
  realized_gains :: "string \<rightharpoonup> gains"


definition zero_position :: position where
  "zero_position =
     \<lparr>long = 0, short = 0, long_cost_basis = 0, short_cost_basis = 0, short_margin_used = 0\<rparr>"

definition zero_gains :: gains where
  "zero_gains = \<lparr>gain_long = 0, gain_short = 0\<rparr>"

text \<open>A dictionary comprehension \<^verbatim>\<open>{ticker: v for ticker in tickers}\<close>: the keys are
  inserted one after the other.\<close>

definition dict_of_keys :: "string list \<Rightarrow> 'v \<Rightarrow> (string \<rightharpoonup> 'v)" where
  "dict_of_keys ks v = fold (\<lambda>k m. m(k \<mapsto> v)) ks Map.empty"

text \<open>\<^verbatim>\<open>Backtester.__init__\<close>, lines 56 to 87.\<close>

definition init_portfolio :: "string list \<Rightarrow> real \<Rightarrow> real \<Rightarrow> portfolio" where
  "init_portfolio tks capital initial_margin_requirement =
     \<lparr>cash = capital,
      margin_used = 0,
      margin_requirement = initial_margin_requirement,
      positions = dict_of_keys tks zero_position,
      realized_gains = dict_of_keys tks zero_gains\<rparr>"


subsection \<open>Trade execution\<close>

text \<open>Python's \<^verbatim>\<open>int(x)\<close> on a float truncates towards zero.\<close>

definition py_int :: "real \<Rightarrow> int" where
  "py_int x = (if 0 \<le> x then \<lfloor>x\<rfloor> else \<lceil>x\<rceil>)"

text \<open>The block that both buy paths share (lines 106 to 117 and 123 to 133): the new
  weighted average cost basis, the share count and the cash.\<close>

definition fill_long :: "portfolio \<Rightarrow> string \<Rightarrow> position \<Rightarrow> int \<Rightarrow> real \<Rightarrow> portfolio" where
  "fill_long pf ticker pos new_shares cost =
     (let old_shares = long pos;
          old_cost_basis = long_cost_basis pos;
          total_shares = old_shares + new_shares;
          pos1 = (if total_shares > 0
                  then pos\<lparr>long_cost_basis :=
                         (old_cost_basis * of_int old_shares + cost) / of_int total_shares\<rparr>
                  else pos);
          pos2 = pos1\<lparr>long := long pos1 + new_shares\<rparr>
      in pf\<lparr>positions := (positions pf)(ticker \<mapsto> pos2), cash := cash pf - cost\<rparr>)"

text \<open>The buy branch, lines 102 to 135.\<close>

definition trade_buy ::
  "portfolio \<Rightarrow> string \<Rightarrow> position \<Rightarrow> int \<Rightarrow> real \<Rightarrow> py_error + portfolio \<times> int" where
  "trade_buy pf ticker pos quantity current_price =
     (let cost = of_int quantity * current_price in
      if cost \<le> cash pf then Inr (fill_long pf ticker pos quantity cost, quantity)
      else if current_price = 0 then Inl ZeroDivisionError
      else
        let max_quantity = py_int (cash pf / current_price) in
        if max_quantity > 0
        then Inr (fill_long pf ticker pos max_quantity (of_int max_quantity * current_price),
                  max_quantity)
        else Inr (pf, 0))"

text \<open>The sell branch, lines 137 to 152.  When nothing can be sold the code falls through
  to the final \<^verbatim>\<open>return 0\<close>.\<close>

definition trade_sell ::
  "portfolio \<Rightarrow> string \<Rightarrow> position \<Rightarrow> int \<Rightarrow> real \<Rightarrow> py_error + portfolio \<times> int" where
  "trade_sell pf ticker pos requested current_price =
     (let quantity = min requested (long pos) in
      if quantity > 0 then
        (case realized_gains pf ticker of
           None \<Rightarrow> Inl KeyError
         | Some g \<Rightarrow>
             let avg_cost_per_share = (if long pos > 0 then long_cost_basis pos else 0);
                 realized_gain = (current_price - avg_cost_per_share) * of_int quantity;
                 g1 = g\<lparr>gain_long := gain_long g + realized_gain\<rparr>;
                 pos1 = pos\<lparr>long := long pos - quantity\<rparr>;
                 pos2 = (if long pos1 = 0 then pos1\<lparr>long_cost_basis := 0\<rparr> else pos1)
             in Inr (pf\<lparr>realized_gains := (realized_gains pf)(ticker \<mapsto> g1),
                        positions := (positions pf)(ticker \<mapsto> pos2),
                        cash := cash pf + of_int quantity * current_price\<rparr>,
                     quantity))
      else Inr (pf, 0))"

text \<open>The block that both short paths share (lines 165 to 183 and 196 to 210).\<close>

definition fill_short ::
  "portfolio \<Rightarrow> string \<Rightarrow> position \<Rightarrow> int \<Rightarrow> real \<Rightarrow> real \<Rightarrow> real \<Rightarrow> portfolio" where
  "fill_short pf ticker pos new_shares current_price proceeds margin_required =
     (let old_short_shares = short pos;
          old_cost_basis = short_cost_basis pos;
          total_shares = old_short_shares + new_shares;
          pos1 = (if total_shares > 0
                  then pos\<lparr>short_cost_basis :=
                         (old_cost_basis * of_int old_short_shares
                            + current_price * of_int new_shares) / of_int total_shares\<rparr>
                  else pos);
          pos2 = pos1\<lparr>short := short pos1 + new_shares\<rparr>;
          pos3 = pos2\<lparr>short_margin_used := short_margin_used pos2 + margin_required\<rparr>
      in pf\<lparr>positions := (positions pf)(ticker \<mapsto> pos3),
             margin_used := margin_used pf + margin_required,
             cash := cash pf + proceeds - margin_required\<rparr>)"

text \<open>The short branch, lines 154 to 212.\<close>

definition trade_short ::
  "portfolio \<Rightarrow> string \<Rightarrow> position \<Rightarrow> int \<Rightarrow> real \<Rightarrow> py_error + portfolio \<times> int" where
  "trade_short pf ticker pos quantity current_price =
     (let proceeds = current_price * of_int quantity;
          margin_required = proceeds * margin_requirement pf in
      if margin_required \<le> cash pf
      then Inr (fill_short pf ticker pos quantity current_price proceeds margin_required,
                quantity)
      else
        let margin_ratio = margin_requirement pf in
        if margin_ratio > 0 \<and> current_price * margin_ratio = 0 then Inl ZeroDivisionError
        else
          let max_quantity =
                (if margin_ratio > 0 then py_int (cash pf / (current_price * margin_ratio))
                 else 0) in
          if max_quantity > 0
          then Inr (fill_short pf ticker pos max_quantity current_price
                      (current_price * of_int max_quantity)
                      (current_price * of_int max_quantity * margin_ratio),
                    max_quantity)
          else Inr (pf, 0))"

text \<open>The cover branch, lines 214 to 248.\<close>

definition trade_cover ::
  "portfolio \<Rightarrow> string \<Rightarrow> position \<Rightarrow> int \<Rightarrow> real \<Rightarrow> py_error + portfolio \<times> int" where
  "trade_cover pf ticker pos requested current_price =
     (let quantity = min requested (short pos) in
      if quantity > 0 then
        (case realized_gains pf ticker of
           None \<Rightarrow> Inl KeyError
         | Some g \<Rightarrow>
             let cover_cost = of_int quantity * current_price;
                 avg_short_price = (if short pos > 0 then short_cost_basis pos else 0);
                 realized_gain = (avg_short_price - current_price) * of_int quantity;
                 g1 = g\<lparr>gain_short := gain_short g + realized_gain\<rparr>;
                 portion_covered =
                   (if short pos > 0 then of_int quantity / of_int (short pos) else 1);
                 margin_to_release = portion_covered * short_margin_used pos;
                 pos1 = pos\<lparr>short := short pos - quantity\<rparr>;
                 pos2 = pos1\<lparr>short_margin_used := short_margin_used pos1 - margin_to_release\<rparr>;
                 pos3 = (if short pos2 = 0
                         then pos2\<lparr>short_cost_basis := 0, short_margin_used := 0\<rparr>
                         else pos2)
             in Inr (pf\<lparr>realized_gains := (realized_gains pf)(ticker \<mapsto> g1),
                        positions := (positions pf)(ticker \<mapsto> pos3),
                        margin_used := margin_used pf - margin_to_release,
                        cash := cash pf + margin_to_release - cover_cost\<rparr>,
                     quantity))
      else Inr (pf, 0))"

text \<open>\<^verbatim>\<open>Backtester.execute_trade\<close>, lines 89 to 250.  The result is the portfolio after
  the call together with the returned number of shares.  The position is looked up (line
  100) after the test on the quantity and before the action is examined.\<close>

definition execute_trade ::
  "portfolio \<Rightarrow> string \<Rightarrow> string \<Rightarrow> real \<Rightarrow> real \<Rightarrow> py_error + portfolio \<times> int" where
  "execute_trade pf ticker action quantity current_price =
     (if quantity \<le> 0 then Inr (pf, 0)
      else
        let q = py_int quantity in
        case positions pf ticker of
          None \<Rightarrow> Inl KeyError
        | Some pos \<Rightarrow>
            if action = ''buy'' then trade_buy pf ticker pos q current_price
            else if action = ''sell'' then trade_sell pf ticker pos q current_price
            else if action = ''short'' then trade_short pf ticker pos q current_price
            else if action = ''cover'' then trade_cover pf ticker pos q current_price
            else Inr (pf, 0))"

text \<open>A sequence of calls of \<^verbatim>\<open>execute_trade\<close> on the same portfolio, as the daily
  loop of \<^verbatim>\<open>run_backtest\<close> issues them (line 402).  An exception ends the sequence.\<close>

record trade =
  tr_ticker :: string
  tr_action :: string
  tr_quantity :: real
  tr_price :: real

fun execute_trades :: "portfolio \<Rightarrow> trade list \<Rightarrow> py_error + portfolio" where
  "execute_trades pf [] = Inr pf"
| "execute_trades pf (t # ts) =
     (case execute_trade pf (tr_ticker t) (tr_action t) (tr_quantity t) (tr_price t) of
        Inl e \<Rightarrow> Inl e
      | Inr (pf1, filled) \<Rightarrow> execute_trades pf1 ts)"

subsection \<open>Valuation\<close>



subsection \<open>Performance metrics\<close>

text \<open>
  \<^verbatim>\<open>Backtester._update_performance_metrics\<close>, lines 511 to 541, on the column
  \<^verbatim>\<open>"Portfolio Value"\<close> of \<^verbatim>\<open>self.portfolio_values\<close>.  The pandas operations are
  written out: \<^verbatim>\<open>pct_change\<close> followed by \<^verbatim>\<open>dropna\<close> gives the quotients of
  neighbouring values minus one (the first row has none), \<^verbatim>\<open>mean\<close> is the arithmetic
  mean, and \<^verbatim>\<open>std\<close> is the sample standard deviation, which is NaN (here \<open>None\<close>) on
  fewer than two numbers.  A comparison with NaN is false.  The model is the code's on
  value series without a zero, where no quotient is infinite.  Lines 543 to 558 of the
  function compute the maximum drawdown and leave the two ratios alone; they are not part
  of the model.
\<close>

fun pct_change :: "real list \<Rightarrow> real list" where
  "pct_change (a # b # vs) = (b / a - 1) # pct_change (b # vs)"
| "pct_change vs = []"

definition mean :: "real list \<Rightarrow> real" where
  "mean xs = sum_list xs / of_nat (length xs)"

definition std :: "real list \<Rightarrow> real option" where
  "std xs =
     (if length xs < 2 then None
      else Some (sqrt (sum_list (map (\<lambda>x. (x - mean xs)\<^sup>2) xs) / of_nat (length xs - 1))))"

text \<open>A float that may be \<^verbatim>\<open>float("inf")\<close>.\<close>

datatype py_float = Finite real | PosInf

record performance_metrics =
  sharpe_ratio :: "real option"
  sortino_ratio :: "py_float option"

definition daily_risk_free_rate :: real where
  "daily_risk_free_rate = 0.0434 / 252"

definition excess_returns_of :: "real list \<Rightarrow> real list" where
  "excess_returns_of vals = map (\<lambda>r. r - daily_risk_free_rate) (pct_change vals)"

text \<open>\<^verbatim>\<open>x > 1e-12\<close> for a float \<open>x\<close> that may be NaN.\<close>

definition above_threshold :: "real option \<Rightarrow> bool" where
  "above_threshold s = (case s of None \<Rightarrow> False | Some x \<Rightarrow> x > 1 / 10 ^ 12)"

definition update_performance_metrics ::
  "real list \<Rightarrow> performance_metrics \<Rightarrow> performance_metrics" where
  "update_performance_metrics vals pm =
     (let clean_returns = pct_change vals in
      if length clean_returns < 2 then pm
      else
        let excess_returns = map (\<lambda>r. r - daily_risk_free_rate) clean_returns;
            mean_excess_return = mean excess_returns;
            std_excess_return = std excess_returns;
            pm1 = (if above_threshold std_excess_return
                   then pm\<lparr>sharpe_ratio :=
                          Some (sqrt 252 * (mean_excess_return / the std_excess_return))\<rparr>
                   else pm\<lparr>sharpe_ratio := Some 0\<rparr>);
            negative_returns = filter (\<lambda>e. e < 0) excess_returns
        in
          if length negative_returns > 0 then
            (let downside_std = std negative_returns in
             if above_threshold downside_std
             then pm1\<lparr>sortino_ratio :=
                    Some (Finite (sqrt 252 * (mean_excess_return / the downside_std)))\<rparr>
             else pm1\<lparr>sortino_ratio :=
                    Some (if mean_excess_return > 0 then PosInf else Finite 0)\<rparr>)
          else pm1\<lparr>sortino_ratio :=
                 Some (if mean_excess_return > 0 then PosInf else Finite 0)\<rparr>)"

section \<open>The response cache\<close>

text \<open>A cached record is a dictionary from field names to values; the five caches map a
  ticker to a list of records.\<close>

type_synonym 'v item = "string \<rightharpoonup> 'v"

record 'v cache =
  prices_cache :: "string \<rightharpoonup> 'v item list"
  financial_metrics_cache :: "string \<rightharpoonup> 'v item list"
  line_items_cache :: "string \<rightharpoonup> 'v item list"
  insider_trades_cache :: "string \<rightharpoonup> 'v item list"
  company_news_cache :: "string \<rightharpoonup> 'v item list"

text \<open>The set comprehension of line 29: \<^verbatim>\<open>item[key_field]\<close> raises on a record without
  the field.\<close>

fun existing_keys_of :: "'v item list \<Rightarrow> string \<Rightarrow> py_error + 'v set" where
  "existing_keys_of [] key_field = Inr {}"
| "existing_keys_of (item # rest) key_field =
     (case item key_field of
        None \<Rightarrow> Inl KeyError
      | Some k \<Rightarrow>
          (case existing_keys_of rest key_field of
             Inl e \<Rightarrow> Inl e
           | Inr ks \<Rightarrow> Inr (insert k ks)))"

text \<open>The list comprehension of line 34.\<close>

fun items_not_in :: "'v set \<Rightarrow> 'v item list \<Rightarrow> string \<Rightarrow> py_error + 'v item list" where
  "items_not_in ks [] key_field = Inr []"
| "items_not_in ks (item # rest) key_field =
     (case item key_field of
        None \<Rightarrow> Inl KeyError
      | Some k \<Rightarrow>
          (case items_not_in ks rest key_field of
             Inl e \<Rightarrow> Inl e
           | Inr kept \<Rightarrow> Inr (if k \<notin> ks then item # kept else kept)))"

text \<open>\<^verbatim>\<open>Cache._merge_data\<close>, lines 13 to 35.  \<^verbatim>\<open>not existing\<close> holds for \<^verbatim>\<open>None\<close>
  and for the empty list.\<close>

definition merge_data ::
  "'v item list option \<Rightarrow> 'v item list \<Rightarrow> string \<Rightarrow> py_error + 'v item list" where
  "merge_data existing new_data key_field =
     (case existing of
        None \<Rightarrow> Inr new_data
      | Some [] \<Rightarrow> Inr new_data
      | Some ex \<Rightarrow>
          (case existing_keys_of ex key_field of
             Inl e \<Rightarrow> Inl e
           | Inr existing_keys \<Rightarrow>
               (case items_not_in existing_keys new_data key_field of
                  Inl e \<Rightarrow> Inl e
                | Inr fresh \<Rightarrow> Inr (ex @ fresh))))"

text \<open>The getters and setters, lines 37 to 75.\<close>

definition get_prices :: "'v cache \<Rightarrow> string \<Rightarrow> 'v item list option" where
  "get_prices c ticker = prices_cache c ticker"

definition set_prices :: "'v cache \<Rightarrow> string \<Rightarrow> 'v item list \<Rightarrow> py_error + 'v cache" where
  "set_prices c ticker data =
     (case merge_data (prices_cache c ticker) data ''time'' of
        Inl e \<Rightarrow> Inl e
      | Inr merged \<Rightarrow> Inr (c\<lparr>prices_cache := (prices_cache c)(ticker \<mapsto> merged)\<rparr>))"

definition get_financial_metrics :: "'v cache \<Rightarrow> string \<Rightarrow> 'v item list option" where
  "get_financial_metrics c ticker = financial_metrics_cache c ticker"

definition set_financial_metrics ::
  "'v cache \<Rightarrow> string \<Rightarrow> 'v item list \<Rightarrow> py_error + 'v cache" where
  "set_financial_metrics c ticker data =
     (case merge_data (financial_metrics_cache c ticker) data ''report_period'' of
        Inl e \<Rightarrow> Inl e
      | Inr merged \<Rightarrow>
          Inr (c\<lparr>financial_metrics_cache := (financial_metrics_cache c)(ticker \<mapsto> merged)\<rparr>))"

definition get_line_items :: "'v cache \<Rightarrow> string \<Rightarrow> 'v item list option" where
  "get_line_items c ticker = line_items_cache c ticker"

definition set_line_items :: "'v cache \<Rightarrow> string \<Rightarrow> 'v item list \<Rightarrow> py_error + 'v cache" where
  "set_line_items c ticker data =
     (case merge_data (line_items_cache c ticker) data ''report_period'' of
        Inl e \<Rightarrow> Inl e
      | Inr merged \<Rightarrow> Inr (c\<lparr>line_items_cache := (line_items_cache c)(ticker \<mapsto> merged)\<rparr>))"

definition get_insider_trades :: "'v cache \<Rightarrow> string \<Rightarrow> 'v item list option" where
  "get_insider_trades c ticker = insider_trades_cache c ticker"

definition set_insider_trades ::
  "'v cache \<Rightarrow> string \<Rightarrow> 'v item list \<Rightarrow> py_error + 'v cache" where
  "set_insider_trades c ticker data =
     (case merge_data (insider_trades_cache c ticker) data ''filing_date'' of
        Inl e \<Rightarrow> Inl e
      | Inr merged \<Rightarrow>
          Inr (c\<lparr>insider_trades_cache := (insider_trades_cache c)(ticker \<mapsto> merged)\<rparr>))"

definition get_company_news :: "'v cache \<Rightarrow> string \<Rightarrow> 'v item list option" where
  "get_company_news c ticker = company_news_cache c ticker"

definition set_company_news :: "'v cache \<Rightarrow> string \<Rightarrow> 'v item list \<Rightarrow> py_error + 'v cache" where
  "set_company_news c ticker data =
     (case merge_data (company_news_cache c ticker) data ''date'' of
        Inl e \<Rightarrow> Inl e
      | Inr merged \<Rightarrow>
          Inr (c\<lparr>company_news_cache := (company_news_cache c)(ticker \<mapsto> merged)\<rparr>))"

section \<open>The accounting in binary64 arithmetic\<close>

subsection \<open>Rounding to a double\<close>

text \<open>
  A Python \<^verbatim>\<open>float\<close> is an IEEE 754 binary64 number.  A finite double is modelled as the
  real number it denotes, and every arithmetic operation of the code as the exact operation
  followed by \<open>rnd\<close>, the rounding to the nearest double with ties to the even
  significand, which is what IEEE 754 prescribes for \<^verbatim>\<open>+\<close>, \<^verbatim>\<open>-\<close>, \<^verbatim>\<open>*\<close> and \<^verbatim>\<open>/\<close>.
  A double is an integer of magnitude below \<open>2^53\<close> times a power of two whose exponent
  is at least \<open>-1074\<close>: the unit in the last place of \<open>x\<close> is \<open>2\<close> to the power
  \<open>dbl_exp x\<close>, which is \<open>\<lfloor>log\<^sub>2 \<bar>x\<bar>\<rfloor> - 52\<close> for a normal number and \<open>-1074\<close> in the
  subnormal range, so underflow is gradual and ends in 0 as in the code.  The model has
  no largest double: it is the code's as long as no result reaches \<open>2^1024\<close> in
  magnitude, where the code would produce an infinity.  NaN and the infinities are not
  values of the model.
\<close>

text \<open>\<open>\<lfloor>log\<^sub>2 x\<rfloor>\<close> for a positive \<open>x\<close>, computed from bit lengths.\<close>

definition ilog2 :: "real \<Rightarrow> int" where
  "ilog2 x = (if 1 \<le> x then int (floorlog 2 (nat \<lfloor>x\<rfloor>)) - 1
              else - int (floorlog 2 (nat (\<lceil>1 / x\<rceil> - 1))))"

text \<open>The nearest integer, a tie going to the even one.\<close>

definition rne :: "real \<Rightarrow> int" where
  "rne t = (let f = \<lfloor>t\<rfloor>; r = t - of_int f in
            if r < 1 / 2 then f else if 1 / 2 < r then f + 1
            else if even f then f else f + 1)"

definition dbl_exp :: "real \<Rightarrow> int" where
  "dbl_exp x = max (ilog2 \<bar>x\<bar>) (- 1022) - 52"

definition rnd :: "real \<Rightarrow> real" where
  "rnd x = (if x = 0 then 0
            else of_int (rne (x / 2 powi dbl_exp x)) * 2 powi dbl_exp x)"

definition is_double :: "real \<Rightarrow> bool" where
  "is_double x \<longleftrightarrow> rnd x = x"

text \<open>The operations of Python on floats.  An \<^verbatim>\<open>int\<close> that meets a float in an
  operation is converted first (\<open>float_of_int\<close>); the quotient of two \<^verbatim>\<open>int\<close>s is the
  rounded exact quotient (\<open>int_truediv\<close>).  A division is only written where the code
  has tested the divisor or where the model has returned \<^verbatim>\<open>ZeroDivisionError\<close> for a
  zero divisor before.\<close>

definition fadd :: "real \<Rightarrow> real \<Rightarrow> real" where
  "fadd a b = rnd (a + b)"

definition fsub :: "real \<Rightarrow> real \<Rightarrow> real" where
  "fsub a b = rnd (a - b)"

definition fmul :: "real \<Rightarrow> real \<Rightarrow> real" where
  "fmul a b = rnd (a * b)"

definition fdiv :: "real \<Rightarrow> real \<Rightarrow> real" where
  "fdiv a b = rnd (a / b)"

definition float_of_int :: "int \<Rightarrow> real" where
  "float_of_int n = rnd (of_int n)"

definition int_truediv :: "int \<Rightarrow> int \<Rightarrow> real" where
  "int_truediv a b = rnd (of_int a / of_int b)"

subsection \<open>Trade execution on doubles\<close>

text \<open>
  The functions of this subsection are \<^verbatim>\<open>Backtester.execute_trade\<close> once more, line by
  line as above, with every operation on floats rounded.  The share counts are \<^verbatim>\<open>int\<close>s
  and stay exact; cash, prices, cost bases, margins and gains are doubles.  The requested
  quantity is any finite number, an \<^verbatim>\<open>int\<close> or a double.
\<close>

definition fill_long_fl :: "portfolio \<Rightarrow> string \<Rightarrow> position \<Rightarrow> int \<Rightarrow> real \<Rightarrow> portfolio" where
  "fill_long_fl pf ticker pos new_shares cost =
     (let old_shares = long pos;
          old_cost_basis = long_cost_basis pos;
          total_shares = old_shares + new_shares;
          pos1 = (if total_shares > 0
                  then
                    (let total_old_cost = fmul old_cost_basis (float_of_int old_shares);
                         total_new_cost = cost
                     in pos\<lparr>long_cost_basis :=
                           fdiv (fadd total_old_cost total_new_cost)
                                (float_of_int total_shares)\<rparr>)
                  else pos);
          pos2 = pos1\<lparr>long := long pos1 + new_shares\<rparr>
      in pf\<lparr>positions := (positions pf)(ticker \<mapsto> pos2), cash := fsub (cash pf) cost\<rparr>)"

definition trade_buy_fl ::
  "portfolio \<Rightarrow> string \<Rightarrow> position \<Rightarrow> int \<Rightarrow> real \<Rightarrow> py_error + portfolio \<times> int" where
  "trade_buy_fl pf ticker pos quantity current_price =
     (let cost = fmul (float_of_int quantity) current_price in
      if cost \<le> cash pf then Inr (fill_long_fl pf ticker pos quantity cost, quantity)
      else if current_price = 0 then Inl ZeroDivisionError
      else
        let max_quantity = py_int (fdiv (cash pf) current_price) in
        if max_quantity > 0
        then Inr (fill_long_fl pf ticker pos max_quantity
                    (fmul (float_of_int max_quantity) current_price),
                  max_quantity)
        else Inr (pf, 0))"

definition trade_sell_fl ::
  "portfolio \<Rightarrow> string \<Rightarrow> position \<Rightarrow> int \<Rightarrow> real \<Rightarrow> py_error + portfolio \<times> int" where
  "trade_sell_fl pf ticker pos requested current_price =
     (let quantity = min requested (long pos) in
      if quantity > 0 then
        (case realized_gains pf ticker of
           None \<Rightarrow> Inl KeyError
         | Some g \<Rightarrow>
             let avg_cost_per_share = (if long pos > 0 then long_cost_basis pos else 0);
                 realized_gain =
                   fmul (fsub current_price avg_cost_per_share) (float_of_int quantity);
                 g1 = g\<lparr>gain_long := fadd (gain_long g) realized_gain\<rparr>;
                 pos1 = pos\<lparr>long := long pos - quantity\<rparr>;
                 pos2 = (if long pos1 = 0 then pos1\<lparr>long_cost_basis := 0\<rparr> else pos1)
             in Inr (pf\<lparr>realized_gains := (realized_gains pf)(ticker \<mapsto> g1),
                        positions := (positions pf)(ticker \<mapsto> pos2),
                        cash := fadd (cash pf) (fmul (float_of_int quantity) current_price)\<rparr>,
                     quantity))
      else Inr (pf, 0))"

definition fill_short_fl ::
  "portfolio \<Rightarrow> string \<Rightarrow> position \<Rightarrow> int \<Rightarrow> real \<Rightarrow> real \<Rightarrow> real \<Rightarrow> portfolio" where
  "fill_short_fl pf ticker pos new_shares current_price proceeds margin_required =
     (let old_short_shares = short pos;
          old_cost_basis = short_cost_basis pos;
          total_shares = old_short_shares + new_shares;
          pos1 = (if total_shares > 0
                  then
                    (let total_old_cost = fmul old_cost_basis (float_of_int old_short_shares);
                         total_new_cost = fmul current_price (float_of_int new_shares)
                     in pos\<lparr>short_cost_basis :=
                           fdiv (fadd total_old_cost total_new_cost)
                                (float_of_int total_shares)\<rparr>)
                  else pos);
          pos2 = pos1\<lparr>short := short pos1 + new_shares\<rparr>;
          pos3 = pos2\<lparr>short_margin_used := fadd (short_margin_used pos2) margin_required\<rparr>
      in pf\<lparr>positions := (positions pf)(ticker \<mapsto> pos3),
             margin_used := fadd (margin_used pf) margin_required,
             cash := fsub (fadd (cash pf) proceeds) margin_required\<rparr>)"

definition trade_short_fl ::
  "portfolio \<Rightarrow> string \<Rightarrow> position \<Rightarrow> int \<Rightarrow> real \<Rightarrow> py_error + portfolio \<times> int" where
  "trade_short_fl pf ticker pos quantity current_price =
     (let proceeds = fmul current_price (float_of_int quantity);
          margin_required = fmul proceeds (margin_requirement pf) in
      if margin_required \<le> cash pf
      then Inr (fill_short_fl pf ticker pos quantity current_price proceeds margin_required,
                quantity)
      else
        let margin_ratio = margin_requirement pf in
        if margin_ratio > 0 \<and> fmul current_price margin_ratio = 0
        then Inl ZeroDivisionError
        else
          let max_quantity =
                (if margin_ratio > 0
                 then py_int (fdiv (cash pf) (fmul current_price margin_ratio))
                 else 0) in
          if max_quantity > 0
          then
            (let proceeds1 = fmul current_price (float_of_int max_quantity);
                 margin_required1 = fmul proceeds1 margin_ratio
             in Inr (fill_short_fl pf ticker pos max_quantity current_price
                       proceeds1 margin_required1,
                     max_quantity))
          else Inr (pf, 0))"

definition trade_cover_fl ::
  "portfolio \<Rightarrow> string \<Rightarrow> position \<Rightarrow> int \<Rightarrow> real \<Rightarrow> py_error + portfolio \<times> int" where
  "trade_cover_fl pf ticker pos requested current_price =
     (let quantity = min requested (short pos) in
      if quantity > 0 then
        (case realized_gains pf ticker of
           None \<Rightarrow> Inl KeyError
         | Some g \<Rightarrow>
             let cover_cost = fmul (float_of_int quantity) current_price;
                 avg_short_price = (if short pos > 0 then short_cost_basis pos else 0);
                 realized_gain =
                   fmul (fsub avg_short_price current_price) (float_of_int quantity);
                 g1 = g\<lparr>gain_short := fadd (gain_short g) realized_gain\<rparr>;
                 portion_covered =
                   (if short pos > 0 then int_truediv quantity (short pos) else 1);
                 margin_to_release = fmul portion_covered (short_margin_used pos);
                 pos1 = pos\<lparr>short := short pos - quantity\<rparr>;
                 pos2 = pos1\<lparr>short_margin_used :=
                          fsub (short_margin_used pos1) margin_to_release\<rparr>;
                 pos3 = (if short pos2 = 0
                         then pos2\<lparr>short_cost_basis := 0, short_margin_used := 0\<rparr>
                         else pos2)
             in Inr (pf\<lparr>realized_gains := (realized_gains pf)(ticker \<mapsto> g1),
                        positions := (positions pf)(ticker \<mapsto> pos3),
                        margin_used := fsub (margin_used pf) margin_to_release,
                        cash := fsub (fadd (cash pf) margin_to_release) cover_cost\<rparr>,
                     quantity))
      else Inr (pf, 0))"

definition execute_trade_fl ::
  "portfolio \<Rightarrow> string \<Rightarrow> string \<Rightarrow> real \<Rightarrow> real \<Rightarrow> py_error + portfolio \<times> int" where
  "execute_trade_fl pf ticker action quantity current_price =
     (if quantity \<le> 0 then Inr (pf, 0)
      else
        let q = py_int quantity in
        case positions pf ticker of
          None \<Rightarrow> Inl KeyError
        | Some pos \<Rightarrow>
            if action = ''buy'' then trade_buy_fl pf ticker pos q current_price
            else if action = ''sell'' then trade_sell_fl pf ticker pos q current_price
            else if action = ''short'' then trade_short_fl pf ticker pos q current_price
            else if action = ''cover'' then trade_cover_fl pf ticker pos q current_price
            else Inr (pf, 0))"

fun execute_trades_fl :: "portfolio \<Rightarrow> trade list \<Rightarrow> py_error + portfolio" where
  "execute_trades_fl pf [] = Inr pf"
| "execute_trades_fl pf (t # ts) =
     (case execute_trade_fl pf (tr_ticker t) (tr_action t) (tr_quantity t) (tr_price t) of
        Inl e \<Rightarrow> Inl e
      | Inr (pf1, filled) \<Rightarrow> execute_trades_fl pf1 ts)"

subsection \<open>Ranges and readers\<close>

text \<open>A double of moderate size: the results of the operations of one call on moderate
  numbers stay far below \<open>2^1024\<close>, so the model is the code's on them.\<close>

definition moderate :: "real \<Rightarrow> bool" where
  "moderate x \<longleftrightarrow> is_double x \<and> \<bar>x\<bar> \<le> 2 ^ 900"

text \<open>\<^verbatim>\<open>portfolio["realized_gains"][ticker]["long"]\<close> and
  \<^verbatim>\<open>portfolio["positions"][ticker]["short_margin_used"]\<close>, for a ticker that the
  portfolio has.\<close>

definition realized_long :: "string \<Rightarrow> portfolio \<Rightarrow> real" where
  "realized_long ticker pf = gain_long (the (realized_gains pf ticker))"

definition margin_of :: "string \<Rightarrow> portfolio \<Rightarrow> real" where
  "margin_of ticker pf = short_margin_used (the (positions pf ticker))"

definition long_basis_of :: "string \<Rightarrow> portfolio \<Rightarrow> real" where
  "long_basis_of ticker pf = long_cost_basis (the (positions pf ticker))"

text \<open>The numbers of a position, of a realized-gains entry and of the account are doubles
  of moderate size, and the share counts are at most \<open>2^53\<close>, so that they are doubles
  too.\<close>

definition moderate_position :: "position \<Rightarrow> bool" where
  "moderate_position pos \<longleftrightarrow>
     moderate (long_cost_basis pos) \<and> moderate (short_cost_basis pos) \<and>
     moderate (short_margin_used pos) \<and> \<bar>long pos\<bar> \<le> 2 ^ 53 \<and> \<bar>short pos\<bar> \<le> 2 ^ 53"

definition moderate_gains :: "gains \<Rightarrow> bool" where
  "moderate_gains g \<longleftrightarrow> moderate (gain_long g) \<and> moderate (gain_short g)"

definition moderate_account :: "portfolio \<Rightarrow> bool" where
  "moderate_account pf \<longleftrightarrow>
     moderate (cash pf) \<and> moderate (margin_used pf) \<and> moderate (margin_requirement pf)"

section \<open>Auxiliary facts\<close>


lemma py_int_of_int: "py_int (of_int n) = n"
  by (simp add: py_int_def)

lemma dict_of_keys_lookup:
  "dict_of_keys ks v k = (if k \<in> set ks then Some v else None)"
proof -
  have "fold (\<lambda>k m. m(k \<mapsto> v)) ks m0 k = (if k \<in> set ks then Some v else m0 k)" for m0
    by (induction ks arbitrary: m0) auto
  then show ?thesis by (simp add: dict_of_keys_def)
qed

section \<open>Properties of the rounding\<close>

lemma ilog2_bounds_ge1:
  assumes "1 \<le> x"
  shows "2 powi (ilog2 x) \<le> x \<and> x < 2 powi (ilog2 x + 1)"
proof -
  let ?n = "nat \<lfloor>x\<rfloor>"
  let ?k = "floorlog 2 ?n"
  have n: "0 < ?n" using assms by simp
  from floorlog_bounds [OF n, of 2]
  have b: "2 ^ (?k - 1) \<le> ?n" "?n < 2 ^ ?k" by simp_all
  have k: "0 < ?k" using n by (simp add: floorlog_def)
  have il: "ilog2 x = int ?k - 1" using assms by (simp add: ilog2_def)
  have nx: "real ?n \<le> x" using assms by simp
  have "(2::real) ^ (?k - 1) = real (2 ^ (?k - 1))" by simp
  also have "\<dots> \<le> real ?n" using b(1) by (rule of_nat_mono)
  also have "\<dots> \<le> x" by (rule nx)
  finally have lo: "(2::real) ^ (?k - 1) \<le> x" .
  have "?n + 1 \<le> 2 ^ ?k" using b(2) by linarith
  then have "real (?n + 1) \<le> real (2 ^ ?k)" by (rule of_nat_mono)
  moreover have "x < real (?n + 1)" using assms by simp linarith
  ultimately have hi: "x < (2::real) ^ ?k" by simp
  have e1: "(2::real) powi (int ?k - 1) = 2 ^ (?k - 1)"
    using k by (simp add: power_int_def nat_diff_distrib')
  have e2: "(2::real) powi (int ?k - 1 + 1) = 2 ^ ?k"
    by (simp add: power_int_def)
  show ?thesis unfolding il e1 e2 using lo hi by simp
qed

lemma ilog2_bounds_lt1:
  assumes "0 < x" and "x < 1"
  shows "2 powi (ilog2 x) \<le> x \<and> x < 2 powi (ilog2 x + 1)"
proof -
  let ?c = "\<lceil>1 / x\<rceil>"
  let ?m = "nat (?c - 1)"
  let ?k = "floorlog 2 ?m"
  have ix: "1 < 1 / x" using assms by simp
  then have c2: "2 \<le> ?c" by linarith
  then have m: "0 < ?m" by simp
  from floorlog_bounds [OF m, of 2]
  have b: "2 ^ (?k - 1) \<le> ?m" "?m < 2 ^ ?k" by simp_all
  have k: "0 < ?k" using m by (simp add: floorlog_def)
  have il: "ilog2 x = - int ?k" using assms by (simp add: ilog2_def)
  have "real ?m = real_of_int (int ?m)" by (rule of_int_of_nat_eq [symmetric])
  also have "int ?m = ?c - 1"
  proof -
    have "0 \<le> ?c - 1" using c2 by linarith
    then show ?thesis by (rule nat_0_le)
  qed
  finally have mc: "real ?m = of_int ?c - 1" by simp
  have "?m + 1 \<le> 2 ^ ?k" using b(2) by linarith
  then have "real (?m + 1) \<le> real (2 ^ ?k)" by (rule of_nat_mono)
  then have "of_int ?c \<le> (2::real) ^ ?k" using mc by simp
  moreover have "1 / x \<le> of_int ?c" by simp
  ultimately have "1 / x \<le> (2::real) ^ ?k" by linarith
  then have lo: "1 / 2 ^ ?k \<le> x"
    using assms(1) by (simp add: field_simps)
  have "(2::real) ^ (?k - 1) = real (2 ^ (?k - 1))" by simp
  also have "\<dots> \<le> real ?m" using b(1) by (rule of_nat_mono)
  also have "\<dots> = of_int ?c - 1" by (rule mc)
  also have "\<dots> < 1 / x" by linarith
  finally have "(2::real) ^ (?k - 1) < 1 / x" .
  then have hi: "x < 1 / 2 ^ (?k - 1)"
    using assms(1) by (simp add: field_simps)
  have e1: "(2::real) powi (- int ?k) = 1 / 2 ^ ?k"
    by (simp add: power_int_def field_simps)
  have e2: "(2::real) powi (- int ?k + 1) = 1 / 2 ^ (?k - 1)"
    using k by (simp add: power_int_def field_simps nat_diff_distrib') 
  show ?thesis unfolding il e1 e2 using lo hi by simp
qed

lemma ilog2_bounds:
  assumes "0 < x"
  shows "2 powi (ilog2 x) \<le> x" and "x < 2 powi (ilog2 x + 1)"
  using ilog2_bounds_ge1 [of x] ilog2_bounds_lt1 [of x] assms
  by (cases "1 \<le> x"; simp)+


lemma two_powi_less_cancel:
  assumes "(2::real) powi a < 2 powi b"
  shows "a < b"
proof (rule ccontr)
  assume "\<not> a < b"
  then have "b \<le> a" by simp
  then have "(2::real) powi b \<le> 2 powi a" by (intro power_int_increasing) simp_all
  with assms show False by simp
qed

lemma ilog2_unique:
  assumes "0 < x" and "2 powi k \<le> x" and "x < 2 powi (k + 1)"
  shows "ilog2 x = k"
proof -
  note b = ilog2_bounds [OF assms(1)]
  have "(2::real) powi (ilog2 x) < 2 powi (k + 1)" using b(1) assms(3) by linarith
  then have 1: "ilog2 x < k + 1" by (rule two_powi_less_cancel)
  have "(2::real) powi k < 2 powi (ilog2 x + 1)" using b(2) assms(2) by linarith
  then have 2: "k < ilog2 x + 1" by (rule two_powi_less_cancel)
  from 1 2 show ?thesis by simp
qed

lemma ilog2_mono:
  assumes "0 < x" and "x \<le> y"
  shows "ilog2 x \<le> ilog2 y"
proof -
  have y: "0 < y" using assms by simp
  have "(2::real) powi (ilog2 x) < 2 powi (ilog2 y + 1)"
    using ilog2_bounds(1) [OF assms(1)] ilog2_bounds(2) [OF y] assms(2) by linarith
  then have "ilog2 x < ilog2 y + 1" by (rule two_powi_less_cancel)
  then show ?thesis by simp
qed

lemma ilog2_less:
  assumes "0 < x" and "x < 2 powi k"
  shows "ilog2 x < k"
proof -
  have "(2::real) powi (ilog2 x) < 2 powi k"
    using ilog2_bounds(1) [OF assms(1)] assms(2) by linarith
  then show ?thesis by (rule two_powi_less_cancel)
qed

lemma rne_of_int: "rne (of_int n) = n"
  by (simp add: rne_def)

lemma rne_bounds: "\<lfloor>t\<rfloor> \<le> rne t" "rne t \<le> \<lfloor>t\<rfloor> + 1"
  by (simp_all add: rne_def Let_def)

lemma rne_mono:
  assumes "t \<le> s"
  shows "rne t \<le> rne s"
proof (cases "\<lfloor>t\<rfloor> = \<lfloor>s\<rfloor>")
  case True
  have "t - of_int \<lfloor>t\<rfloor> \<le> s - of_int \<lfloor>s\<rfloor>" using assms True by simp
  then show ?thesis using True by (auto simp add: rne_def Let_def)
next
  case False
  have "\<lfloor>t\<rfloor> \<le> \<lfloor>s\<rfloor>" using assms by (rule floor_mono)
  with False have "\<lfloor>t\<rfloor> + 1 \<le> \<lfloor>s\<rfloor>" by simp
  with rne_bounds(2) [of t] rne_bounds(1) [of s] show ?thesis by linarith
qed

lemma rne_le_int: "t \<le> of_int n \<Longrightarrow> rne t \<le> n"
  using rne_mono [of t "of_int n"] by (simp add: rne_of_int)

lemma rne_ge_int: "of_int n \<le> t \<Longrightarrow> n \<le> rne t"
  using rne_mono [of "of_int n" t] by (simp add: rne_of_int)

lemma dbl_exp_ge: "- 1074 \<le> dbl_exp x"
  by (simp add: dbl_exp_def)

lemma rnd_zero: "rnd 0 = 0"
  by (simp add: rnd_def)

lemma rnd_nonneg:
  assumes "0 \<le> x"
  shows "0 \<le> rnd x"
proof (cases "x = 0")
  case True
  then show ?thesis by (simp add: rnd_def)
next
  case False
  have "0 \<le> x / 2 powi dbl_exp x" using assms by simp
  then have "0 \<le> rne (x / 2 powi dbl_exp x)" using rne_ge_int [of 0] by simp
  then show ?thesis using False by (simp add: rnd_def)
qed

lemma rnd_nonpos:
  assumes "x \<le> 0"
  shows "rnd x \<le> 0"
proof (cases "x = 0")
  case True
  then show ?thesis by (simp add: rnd_def)
next
  case False
  have "x / 2 powi dbl_exp x \<le> 0" using assms by (simp add: divide_le_0_iff)
  then have "rne (x / 2 powi dbl_exp x) \<le> 0" using rne_le_int [of _ 0] by simp
  then show ?thesis using False by (simp add: rnd_def mult_le_0_iff)
qed


lemma two_powi_add: "(2::real) powi (a + b) = 2 powi a * 2 powi b"
  by (simp add: power_int_add)

lemma two_powi_nat: "(2::real) powi (int n) = 2 ^ n"
  by simp

lemma rnd_multiple:
  assumes "x \<noteq> 0" and "x = of_int m * 2 powi dbl_exp x"
  shows "rnd x = x"
proof -
  have "x / 2 powi dbl_exp x = of_int m"
    using assms(2) by (metis nonzero_eq_divide_eq power_int_eq_0_iff zero_neq_numeral)
  then have "rne (x / 2 powi dbl_exp x) = m" by (simp add: rne_of_int)
  then show ?thesis using assms by (simp add: rnd_def)
qed

lemma rnd_representable:
  assumes "\<bar>k\<bar> \<le> 2 ^ 53" and "- 1074 \<le> j"
  shows "rnd (of_int k * 2 powi j) = of_int k * 2 powi j"
proof (cases "k = 0")
  case True
  then show ?thesis by (simp add: rnd_def)
next
  case k0: False
  let ?x = "of_int k * (2::real) powi j"
  let ?e = "dbl_exp ?x"
  have x0: "?x \<noteq> 0" using k0 by simp
  have ax: "\<bar>?x\<bar> = of_int \<bar>k\<bar> * 2 powi j" by (simp add: abs_mult)
  have axp: "0 < \<bar>?x\<bar>" using x0 by simp
  show ?thesis
  proof (cases "\<bar>k\<bar> < 2 ^ 53")
    case True
    then have "real_of_int \<bar>k\<bar> < real_of_int (2 ^ 53)" by (simp only: of_int_less_iff)
    then have "real_of_int \<bar>k\<bar> * 2 powi j < 2 ^ 53 * 2 powi j" by simp
    also have "\<dots> = 2 powi (53 + j)" by (simp add: two_powi_add)
    finally have "\<bar>?x\<bar> < 2 powi (53 + j)" unfolding ax .
    with axp have "ilog2 \<bar>?x\<bar> < 53 + j" by (rule ilog2_less)
    then have ej: "?e \<le> j" using assms(2) by (simp add: dbl_exp_def)
    define d where "d = nat (j - ?e)"
    have "j = int d + ?e" using ej by (simp add: d_def)
    then have "(2::real) powi j = 2 powi (int d + ?e)" by simp
    also have "\<dots> = 2 ^ d * 2 powi ?e" by (simp only: two_powi_add two_powi_nat)
    finally have "?x = of_int (k * 2 ^ d) * 2 powi ?e" by simp
    with x0 show ?thesis by (rule rnd_multiple)
  next
    case False
    with assms(1) have k: "\<bar>k\<bar> = 2 ^ 53" by simp
    then have "\<bar>?x\<bar> = 2 ^ 53 * 2 powi j" unfolding ax by simp
    also have "\<dots> = 2 powi (53 + j)" by (simp add: two_powi_add)
    finally have axe: "\<bar>?x\<bar> = 2 powi (53 + j)" .
    have "(2::real) powi (53 + j) < 2 powi (53 + j + 1)"
      by (intro power_int_strict_increasing) simp_all
    then have "ilog2 \<bar>?x\<bar> = 53 + j"
      using axp unfolding axe by (intro ilog2_unique) simp_all
    then have e: "?e = j + 1" using assms(2) by (simp add: dbl_exp_def)
    have "k = 2 ^ 53 \<or> k = - (2 ^ 53)" using k by linarith
    then have "k = 2 * (k div 2)" by auto
    then have "real_of_int k = 2 * of_int (k div 2)"
      by (metis of_int_mult of_int_numeral)
    then have "?x = of_int (k div 2) * (2 powi 1 * 2 powi j)" by simp
    also have "(2::real) powi 1 * 2 powi j = 2 powi ?e"
      unfolding e by (simp only: two_powi_add [symmetric] add.commute)
    finally have "?x = of_int (k div 2) * 2 powi ?e" .
    with x0 show ?thesis by (rule rnd_multiple)
  qed
qed


lemma scaled_less:
  assumes "x \<noteq> 0"
  shows "\<bar>x\<bar> / 2 powi dbl_exp x < 2 ^ 53"
proof -
  let ?L = "ilog2 \<bar>x\<bar>"
  have ax: "0 < \<bar>x\<bar>" using assms by simp
  have "?L - 52 \<le> dbl_exp x" by (simp add: dbl_exp_def)
  then have "?L + 1 \<le> 53 + dbl_exp x" by simp
  then have "(2::real) powi (?L + 1) \<le> 2 powi (53 + dbl_exp x)"
    by (intro power_int_increasing) simp_all
  with ilog2_bounds(2) [OF ax] have "\<bar>x\<bar> < 2 powi (53 + dbl_exp x)" by linarith
  also have "\<dots> = 2 ^ 53 * 2 powi dbl_exp x" by (simp add: two_powi_add)
  finally show ?thesis by (simp add: pos_divide_less_eq)
qed

lemma rne_scaled_bound:
  assumes "x \<noteq> 0"
  shows "\<bar>rne (x / 2 powi dbl_exp x)\<bar> \<le> 2 ^ 53"
proof -
  let ?t = "x / 2 powi dbl_exp x"
  have "\<bar>?t\<bar> = \<bar>x\<bar> / 2 powi dbl_exp x" by (simp add: abs_divide)
  with scaled_less [OF assms] have t: "\<bar>?t\<bar> < 2 ^ 53" by (simp only:)
  have a: "?t \<le> 2 ^ 53" and b: "- (2 ^ 53) \<le> ?t" using t by linarith+
  have "?t \<le> of_int (2 ^ 53)" using a by simp
  then have 1: "rne ?t \<le> 2 ^ 53" by (rule rne_le_int)
  have "of_int (- (2 ^ 53)) \<le> ?t" using b by simp
  then have 2: "- (2 ^ 53) \<le> rne ?t" by (rule rne_ge_int)
  from 1 2 show ?thesis by simp
qed

lemma rnd_idem: "rnd (rnd x) = rnd x"
proof (cases "x = 0")
  case True
  then show ?thesis by (simp add: rnd_def)
next
  case False
  then have "rnd x = of_int (rne (x / 2 powi dbl_exp x)) * 2 powi dbl_exp x"
    by (simp add: rnd_def)
  moreover have "rnd (of_int (rne (x / 2 powi dbl_exp x)) * 2 powi dbl_exp x)
      = of_int (rne (x / 2 powi dbl_exp x)) * 2 powi dbl_exp x"
    using rne_scaled_bound [OF False] dbl_exp_ge by (rule rnd_representable)
  ultimately show ?thesis by simp
qed

lemma rnd_of_int:
  assumes "\<bar>n\<bar> \<le> 2 ^ 53"
  shows "rnd (of_int n) = of_int n"
  using rnd_representable [OF assms, of 0] by simp

lemma rnd_one: "rnd 1 = 1"
  using rnd_of_int [of 1] by simp

lemma rnd_mono_nonneg:
  assumes "0 \<le> x" and "x \<le> y"
  shows "rnd x \<le> rnd y"
proof (cases "x = 0")
  case True
  with assms rnd_nonneg [of y] show ?thesis by (simp add: rnd_zero)
next
  case False
  with assms have x: "0 < x" and y: "0 < y" by simp_all
  let ?ex = "dbl_exp x" and ?ey = "dbl_exp y"
  have rx: "rnd x = of_int (rne (x / 2 powi ?ex)) * 2 powi ?ex"
    and ry: "rnd y = of_int (rne (y / 2 powi ?ey)) * 2 powi ?ey"
    using x y by (simp_all add: rnd_def)
  have il: "ilog2 x \<le> ilog2 y" using x assms(2) by (rule ilog2_mono)
  then have ee: "?ex \<le> ?ey" using x y by (simp add: dbl_exp_def)
  show ?thesis
  proof (cases "?ex = ?ey")
    case True
    have "x / 2 powi ?ey \<le> y / 2 powi ?ey"
      using assms(2) by (simp add: divide_right_mono)
    then have "rne (x / 2 powi ?ey) \<le> rne (y / 2 powi ?ey)" by (rule rne_mono)
    then show ?thesis unfolding rx ry True by simp
  next
    case False
    with ee have lt: "?ex < ?ey" by simp
    define L where "L = ilog2 y"
    have ey: "?ey = L - 52" and Lx: "ilog2 x < L"
      using lt x y by (auto simp add: dbl_exp_def L_def split: if_splits)
    have yL: "2 powi L \<le> y" using ilog2_bounds(1) [OF y] by (simp add: L_def)
    have xL: "x < 2 powi L"
    proof -
      have "ilog2 x + 1 \<le> L" using Lx by simp
      then have "(2::real) powi (ilog2 x + 1) \<le> 2 powi L"
        by (intro power_int_increasing) simp_all
      with ilog2_bounds(2) [OF x] show ?thesis by linarith
    qed
    have exL: "?ex \<le> L" using lt ey by simp
    define d where "d = nat (L - ?ex)"
    have "L = int d + ?ex" using exL by (simp add: d_def)
    then have "(2::real) powi L = 2 powi (int d + ?ex)" by simp
    also have "\<dots> = 2 ^ d * 2 powi ?ex" by (simp only: two_powi_add two_powi_nat)
    finally have Ld: "(2::real) powi L = 2 ^ d * 2 powi ?ex" .
    have "x / 2 powi ?ex \<le> 2 ^ d"
      using xL unfolding Ld by (simp add: pos_divide_le_eq)
    then have "x / 2 powi ?ex \<le> of_int (2 ^ d)" by simp
    then have "rne (x / 2 powi ?ex) \<le> 2 ^ d" by (rule rne_le_int)
    then have "real_of_int (rne (x / 2 powi ?ex)) \<le> real_of_int (2 ^ d)"
      by (simp only: of_int_le_iff)
    then have "real_of_int (rne (x / 2 powi ?ex)) * 2 powi ?ex \<le> 2 ^ d * 2 powi ?ex"
      by simp
    then have 1: "rnd x \<le> 2 powi L" unfolding rx Ld .
    have "(2::real) powi L = 2 powi (52 + ?ey)" using ey by simp
    also have "\<dots> = 2 ^ 52 * 2 powi ?ey" by (simp add: two_powi_add)
    finally have Le: "(2::real) powi L = 2 ^ 52 * 2 powi ?ey" .
    have "2 ^ 52 \<le> y / 2 powi ?ey"
      using yL unfolding Le by (simp add: pos_le_divide_eq)
    then have "of_int (2 ^ 52) \<le> y / 2 powi ?ey" by simp
    then have "2 ^ 52 \<le> rne (y / 2 powi ?ey)" by (rule rne_ge_int)
    then have "real_of_int (2 ^ 52) \<le> real_of_int (rne (y / 2 powi ?ey))"
      by (simp only: of_int_le_iff)
    then have "2 ^ 52 * 2 powi ?ey \<le> real_of_int (rne (y / 2 powi ?ey)) * 2 powi ?ey"
      by simp
    then have 2: "2 powi L \<le> rnd y" unfolding ry Le .
    from 1 2 show ?thesis by linarith
  qed
qed

text \<open>The rules that evaluate the operations on doubles at numerals.\<close>

lemmas fl_eval =
  fadd_def fsub_def fmul_def fdiv_def float_of_int_def int_truediv_def is_double_def
  rnd_def dbl_exp_def ilog2_def rne_def compute_floorlog Let_def

section \<open>Properties of trade execution in exact arithmetic\<close>

subsection \<open>Weighted average cost basis\<close>



subsection \<open>Shorting without a margin requirement\<close>

text \<open>
  Claim C2.  The claim is what the code announces: line 686 of the source names the
  default margin requirement of 0 as the setting in which shorting is not allowed, and
  lines 189 and 190 fill 0 shares for a margin requirement of 0.  The code does not do
  it: that guard sits in the branch taken when the margin needed exceeds the cash, and with
  a margin requirement of 0 the margin needed is 0, so the test of line 163 sends every
  portfolio whose cash is not negative to the full fill.  With a margin requirement of 0 and
  cash 1000, a short of 10 shares at price 5 fills 10 shares and changes the portfolio
  (the cash grows to 1050), in the exact reading of the arithmetic and on doubles alike.
\<close>

theorem short_zero_margin_fills:
  "map_sum id snd (execute_trade (init_portfolio [''X''] 1000 0) ''X'' ''short'' 10 5) = Inr 10
   \<and> execute_trade (init_portfolio [''X''] 1000 0) ''X'' ''short'' 10 5
       \<noteq> Inr (init_portfolio [''X''] 1000 0, 0)
   \<and> map_sum id snd (execute_trade_fl (init_portfolio [''X''] 1000 0) ''X'' ''short'' 10 5)
       = Inr 10
   \<and> map_sum id (cash \<circ> fst)
         (execute_trade_fl (init_portfolio [''X''] 1000 0) ''X'' ''short'' 10 5)
       = Inr 1050"
  by (simp add: execute_trade_def execute_trade_fl_def init_portfolio_def dict_of_keys_lookup
        py_int_def trade_short_def trade_short_fl_def fill_short_fl_def zero_position_def
        fl_eval)

section \<open>Properties of trade execution on doubles\<close>

subsection \<open>Auxiliary facts\<close>

lemma is_double_rnd: "is_double (rnd x)"
  by (simp add: is_double_def rnd_idem)

lemma is_double_zero: "is_double 0"
  by (simp add: is_double_def rnd_zero)

lemma float_of_int_small: "\<bar>n\<bar> \<le> 2 ^ 53 \<Longrightarrow> float_of_int n = of_int n"
  by (simp add: float_of_int_def rnd_of_int)

lemma float_of_int_zero: "float_of_int 0 = 0"
  by (simp add: float_of_int_def rnd_zero)

lemma fmul_zero: "fmul x 0 = 0" "fmul 0 x = 0"
  by (simp_all add: fmul_def rnd_zero)

lemma fadd_zero: "is_double x \<Longrightarrow> fadd x 0 = x" "is_double x \<Longrightarrow> fadd 0 x = x"
  by (simp_all add: fadd_def is_double_def)

lemma fsub_zero: "is_double x \<Longrightarrow> fsub x 0 = x"
  by (simp add: fsub_def is_double_def)

lemma fsub_self: "fsub x x = 0"
  by (simp add: fsub_def rnd_zero)

lemma is_double_ops: "is_double (fadd a b)" "is_double (fsub a b)" "is_double (fmul a b)"
  "is_double (fdiv a b)" "is_double (float_of_int n)" "is_double (int_truediv i j)"
  by (simp_all add: fadd_def fsub_def fmul_def fdiv_def float_of_int_def int_truediv_def
      is_double_rnd)

lemma execute_trade_fl_tracked:
  assumes "0 < quantity" and "positions pf t = Some pos"
  shows "execute_trade_fl pf t action quantity price =
     (if action = ''buy'' then trade_buy_fl pf t pos (py_int quantity) price
      else if action = ''sell'' then trade_sell_fl pf t pos (py_int quantity) price
      else if action = ''short'' then trade_short_fl pf t pos (py_int quantity) price
      else if action = ''cover'' then trade_cover_fl pf t pos (py_int quantity) price
      else Inr (pf, 0))"
  using assms by (simp add: execute_trade_fl_def Let_def)

subsection \<open>Round trip of a long position\<close>

text \<open>
  Claim C4, as the code has it.  Take a portfolio that tracks the instrument \<open>t\<close> with no
  long shares, and \<open>n\<close> whole shares (at most \<open>2^53\<close>) at a price \<open>p\<close> whose cost, as the
  code computes it, the cash covers; the numbers are doubles of moderate size.  A buy of
  \<open>n\<close> shares at \<open>p\<close> fills \<open>n\<close>, the sell of \<open>n\<close> shares at \<open>p\<close> that follows fills
  \<open>n\<close>, and afterwards the position has no long shares and a long cost basis of 0.  The
  cash ends at \<open>(cash \<ominus> cost) \<oplus> cost\<close> and the realized long gain grows by
  \<open>(p \<ominus> cost \<oslash> n) \<otimes> n\<close>, every operation rounded to a double; here \<open>cost\<close> is the
  rounded product of \<open>n\<close> and \<open>p\<close>.  When no rounding happens, that is when \<open>n * p\<close> and
  \<open>cash - n * p\<close> are doubles, the cash and the realized gains are exactly what they were
  before the buy.
\<close>

theorem buy_sell_round_trip_fl:
  assumes "positions pf t = Some pos" and "realized_gains pf t = Some g"
    and "long pos = 0" and "0 < n" and "n \<le> 2 ^ 53"
    and "moderate p" and "moderate (cash pf)" and "moderate (gain_long g)"
    and "fmul (of_int n) p \<le> cash pf"
  shows "\<exists>pf1 pf2 pos2 g2.
           execute_trade_fl pf t ''buy'' (of_int n) p = Inr (pf1, n) \<and>
           execute_trade_fl pf1 t ''sell'' (of_int n) p = Inr (pf2, n) \<and>
           positions pf2 t = Some pos2 \<and> long pos2 = 0 \<and> long_cost_basis pos2 = 0 \<and>
           realized_gains pf2 t = Some g2 \<and> gain_short g2 = gain_short g \<and>
           cash pf2 = fadd (fsub (cash pf) (fmul (of_int n) p)) (fmul (of_int n) p) \<and>
           gain_long g2 =
             fadd (gain_long g)
               (fmul (fsub p (fdiv (fmul (of_int n) p) (of_int n))) (of_int n)) \<and>
           (fmul (of_int n) p = of_int n * p \<and> is_double (cash pf - of_int n * p) \<longrightarrow>
              cash pf2 = cash pf \<and> realized_gains pf2 = realized_gains pf)"
proof -
  define c where "c = fmul (of_int n) p"
  have fn: "float_of_int n = of_int n"
    using assms(4,5) by (intro float_of_int_small) simp
  have nq: "0 < (of_int n :: real)" using assms(4) by simp
  have dc: "is_double c" by (simp add: c_def is_double_ops)
  let ?pf1 = "fill_long_fl pf t pos n c"
  have b: "execute_trade_fl pf t ''buy'' (of_int n) p = Inr (?pf1, n)"
    using assms(9)
    by (simp add: execute_trade_fl_tracked [OF nq assms(1)] py_int_of_int trade_buy_fl_def fn
        c_def)
  obtain pos1 where p1: "positions ?pf1 t = Some pos1" "long pos1 = n"
      "long_cost_basis pos1 = fdiv c (of_int n)"
    using assms(3,4) dc
    by (simp add: fill_long_fl_def Let_def fn float_of_int_zero fmul_zero fadd_zero)
  have g1: "realized_gains ?pf1 t = Some g" "cash ?pf1 = fsub (cash pf) c"
      "realized_gains ?pf1 = realized_gains pf"
    using assms(2) by (simp_all add: fill_long_fl_def Let_def)
  define g2 where
    "g2 = g\<lparr>gain_long := fadd (gain_long g) (fmul (fsub p (fdiv c (of_int n))) (of_int n))\<rparr>"
  define pf2 where
    "pf2 = ?pf1\<lparr>realized_gains := (realized_gains ?pf1)(t \<mapsto> g2),
                 positions := (positions ?pf1)(t \<mapsto> pos1\<lparr>long := 0, long_cost_basis := 0\<rparr>),
                 cash := fadd (cash ?pf1) c\<rparr>"
  have s: "execute_trade_fl ?pf1 t ''sell'' (of_int n) p = Inr (pf2, n)"
    using assms(4) p1 g1(1)
    by (simp add: execute_trade_fl_tracked [OF nq p1(1)] py_int_of_int trade_sell_fl_def
        Let_def fn c_def [symmetric] g2_def pf2_def)
  have f2: "positions pf2 t = Some (pos1\<lparr>long := 0, long_cost_basis := 0\<rparr>)"
      "realized_gains pf2 t = Some g2" "gain_short g2 = gain_short g"
      "cash pf2 = fadd (fsub (cash pf) c) c"
      "gain_long g2 = fadd (gain_long g) (fmul (fsub p (fdiv c (of_int n))) (of_int n))"
    by (simp_all add: pf2_def g2_def g1(2))
  have ex: "cash pf2 = cash pf \<and> realized_gains pf2 = realized_gains pf"
    if h: "c = of_int n * p" "is_double (cash pf - of_int n * p)"
  proof -
    have dp: "is_double p" "is_double (cash pf)" "is_double (gain_long g)"
      using assms(6,7,8) by (simp_all add: moderate_def)
    have "fdiv c (of_int n) = rnd p" using h(1) nq by (simp add: fdiv_def)
    then have bp: "fdiv c (of_int n) = p" using dp(1) by (simp add: is_double_def)
    have "g2 = g" using dp(3) by (simp add: g2_def bp fsub_self fmul_zero fadd_zero)
    then have 1: "realized_gains pf2 = realized_gains pf"
      using assms(2) g1(3) by (simp add: pf2_def map_upd_triv)
    have "fsub (cash pf) c = cash pf - of_int n * p"
      using h by (simp add: fsub_def is_double_def)
    then have "cash pf2 = rnd (cash pf)" using h(1) by (simp add: f2(4) fadd_def)
    then have 2: "cash pf2 = cash pf" using dp(2) by (simp add: is_double_def)
    from 1 2 show ?thesis by simp
  qed
  show ?thesis
    using b s f2 ex unfolding c_def [symmetric] by auto
qed


theorem buy_sell_round_trip_fl_witness:
  "\<exists>pf1 pf2 pos2 g2.
     execute_trade_fl (init_portfolio [''X''] 100000 0) ''X'' ''buy'' 100 50 = Inr (pf1, 100) \<and>
     execute_trade_fl pf1 ''X'' ''sell'' 100 50 = Inr (pf2, 100) \<and>
     positions pf2 ''X'' = Some pos2 \<and> long pos2 = 0 \<and> long_cost_basis pos2 = 0 \<and>
     realized_gains pf2 ''X'' = Some g2 \<and>
     cash pf2 = 100000 \<and>
     realized_gains pf2 = realized_gains (init_portfolio [''X''] 100000 0)"
  using buy_sell_round_trip_fl
    [of "init_portfolio [''X''] 100000 0" "''X''" zero_position zero_gains 100 50]
  by (simp add: init_portfolio_def dict_of_keys_lookup zero_position_def zero_gains_def
      moderate_def fl_eval) blast

text \<open>The statement of C4 for all prices fails on doubles.  A buy of 3 shares at 0.1
  followed by the sell of the 3 shares at 0.1 leaves a realized long gain of \<open>-3 / 2^56\<close>
  (the cost basis after the buy is 0.10000000000000002).  With cash 500.16, a buy of 1
  share at 236.28 followed by its sell leaves the cash at 500.15999999999997, one unit in
  the last place below the cash before.\<close>

theorem buy_sell_round_trip_counterexample:
  "map_sum id (realized_long ''X'')
     (execute_trades_fl (init_portfolio [''X''] 1000 0)
        [\<lparr>tr_ticker = ''X'', tr_action = ''buy'', tr_quantity = 3, tr_price = rnd (1 / 10)\<rparr>,
         \<lparr>tr_ticker = ''X'', tr_action = ''sell'', tr_quantity = 3, tr_price = rnd (1 / 10)\<rparr>])
     = Inr (- 3 / 2 ^ 56)
   \<and> map_sum id cash
     (execute_trades_fl (init_portfolio [''X''] (rnd (50016 / 100)) 0)
        [\<lparr>tr_ticker = ''X'', tr_action = ''buy'', tr_quantity = 1,
          tr_price = rnd (23628 / 100)\<rparr>,
         \<lparr>tr_ticker = ''X'', tr_action = ''sell'', tr_quantity = 1,
          tr_price = rnd (23628 / 100)\<rparr>])
     = Inr (4399453885987553 / 8796093022208)
   \<and> rnd (50016 / 100) = 8798907771975107 / 17592186044416"
  by (simp add: init_portfolio_def dict_of_keys_lookup zero_position_def zero_gains_def
      execute_trade_fl_def trade_buy_fl_def trade_sell_fl_def fill_long_fl_def py_int_def
      realized_long_def fl_eval)

section \<open>Properties of the valuation\<close>






section \<open>Properties of the cache\<close>

text \<open>What the merge does for records that carry the key field: the records cached before
  stay in their places, and the new records whose key is not the key of a record cached
  before follow in their order.  The new records are compared with the cached ones only,
  not with each other.\<close>

lemma existing_keys_of_present:
  assumes "\<forall>r \<in> set ex. r key_field \<noteq> None"
  shows "existing_keys_of ex key_field = Inr ((\<lambda>r. the (r key_field)) ` set ex)"
  using assms by (induction ex) auto

lemma items_not_in_present:
  assumes "\<forall>r \<in> set new. r key_field \<noteq> None"
  shows "items_not_in ks new key_field =
           Inr (filter (\<lambda>r. the (r key_field) \<notin> ks) new)"
  using assms by (induction new) auto

lemma merge_data_result:
  assumes "old = (case existing of None \<Rightarrow> [] | Some ex \<Rightarrow> ex)"
    and "old \<noteq> [] \<Longrightarrow> \<forall>r \<in> set old \<union> set new_data. r key_field \<noteq> None"
  shows "merge_data existing new_data key_field =
           Inr (old @ filter (\<lambda>r. r key_field \<notin> (\<lambda>e. e key_field) ` set old) new_data)"
proof (cases "old = []")
  case True
  with assms(1) show ?thesis
    by (auto simp add: merge_data_def split: option.splits list.splits)
next
  case False
  with assms(1) obtain a ex where ex: "existing = Some (a # ex)" "old = a # ex"
    by (cases existing; cases old) auto
  from assms(2) [OF False]
  have p: "\<forall>r \<in> set old. r key_field \<noteq> None" "\<forall>r \<in> set new_data. r key_field \<noteq> None"
    by auto
  have "the (r key_field) \<notin> (\<lambda>r. the (r key_field)) ` set old
          \<longleftrightarrow> r key_field \<notin> (\<lambda>e. e key_field) ` set old"
    if "r \<in> set new_data" for r
  proof -
    from that p(2) obtain k where k: "r key_field = Some k" by auto
    show ?thesis
    proof
      assume a: "the (r key_field) \<notin> (\<lambda>r. the (r key_field)) ` set old"
      show "r key_field \<notin> (\<lambda>e. e key_field) ` set old"
      proof
        assume "r key_field \<in> (\<lambda>e. e key_field) ` set old"
        then obtain e where e: "e \<in> set old" "e key_field = r key_field" by auto
        from e(2) have "the (r key_field) = (\<lambda>r. the (r key_field)) e" by simp
        then have "the (r key_field) \<in> (\<lambda>r. the (r key_field)) ` set old"
          using e(1) by (rule image_eqI)
        with a show False by simp
      qed
    next
      assume a: "r key_field \<notin> (\<lambda>e. e key_field) ` set old"
      show "the (r key_field) \<notin> (\<lambda>r. the (r key_field)) ` set old"
      proof
        assume "the (r key_field) \<in> (\<lambda>r. the (r key_field)) ` set old"
        then obtain e where e: "e \<in> set old" "the (e key_field) = the (r key_field)" by auto
        with p(1) obtain j where "e key_field = Some j" by auto
        with e k have "r key_field = (\<lambda>e. e key_field) e" by simp
        then have "r key_field \<in> (\<lambda>e. e key_field) ` set old"
          using e(1) by (rule image_eqI)
        with a show False by simp
      qed
    qed
  qed
  then have f: "filter (\<lambda>r. the (r key_field) \<notin> (\<lambda>r. the (r key_field)) ` set old) new_data
        = filter (\<lambda>r. r key_field \<notin> (\<lambda>e. e key_field) ` set old) new_data"
    by (intro filter_cong) auto
  have "merge_data existing new_data key_field =
          Inr (old @ filter (\<lambda>r. the (r key_field) \<notin> (\<lambda>r. the (r key_field)) ` set old) new_data)"
    using existing_keys_of_present [OF p(1)] items_not_in_present [OF p(2)] ex
    by (simp add: merge_data_def)
  with f show ?thesis by simp
qed

text \<open>
  Claim C10.  The claim is what the docstring of \<^verbatim>\<open>_merge_data\<close> promises, a merged list
  without duplicates of the key field.  The code keeps the records cached before and
  appends only new records whose key is not among theirs, but it does not deduplicate:
  with nothing cached before, lines 25 and 26 store the new list as it is, and line 34
  compares a new record with the cached records only.  Two new records with the same
  \<open>time\<close> are both stored, into an empty cache and behind a cached record alike.
\<close>

theorem cache_set_stores_duplicates:
  "set_prices
     (\<lparr>prices_cache = Map.empty, financial_metrics_cache = Map.empty,
       line_items_cache = Map.empty, insider_trades_cache = Map.empty,
       company_news_cache = Map.empty\<rparr> :: nat cache)
     ''AAPL'' [[''time'' \<mapsto> 1, ''close'' \<mapsto> 10], [''time'' \<mapsto> 1, ''close'' \<mapsto> 11]]
   = Inr \<lparr>prices_cache =
            [''AAPL'' \<mapsto> [[''time'' \<mapsto> 1, ''close'' \<mapsto> 10], [''time'' \<mapsto> 1, ''close'' \<mapsto> 11]]],
          financial_metrics_cache = Map.empty, line_items_cache = Map.empty,
          insider_trades_cache = Map.empty, company_news_cache = Map.empty\<rparr>
   \<and>
   set_prices
     (\<lparr>prices_cache = [''AAPL'' \<mapsto> [[''time'' \<mapsto> 1, ''close'' \<mapsto> 10]]],
       financial_metrics_cache = Map.empty,
       line_items_cache = Map.empty, insider_trades_cache = Map.empty,
       company_news_cache = Map.empty\<rparr> :: nat cache)
     ''AAPL'' [[''time'' \<mapsto> 2, ''close'' \<mapsto> 20], [''time'' \<mapsto> 2, ''close'' \<mapsto> 21]]
   = Inr \<lparr>prices_cache =
            [''AAPL'' \<mapsto> [[''time'' \<mapsto> 1, ''close'' \<mapsto> 10],
                          [''time'' \<mapsto> 2, ''close'' \<mapsto> 20], [''time'' \<mapsto> 2, ''close'' \<mapsto> 21]]],
          financial_metrics_cache = Map.empty, line_items_cache = Map.empty,
          insider_trades_cache = Map.empty, company_news_cache = Map.empty\<rparr>"
  by (simp add: set_prices_def merge_data_def)

section \<open>Properties of the performance metrics\<close>

text \<open>
  Claim C9, as the code has it.  Take a value series without a zero that has at least two
  daily returns.  When the standard deviation of the excess returns is not above
  \<open>1e-12\<close>, the update sets the Sharpe ratio to 0.  When the standard deviation of the
  negative excess returns is not above \<open>1e-12\<close> (or is NaN, with a single negative excess
  return), the update sets the Sortino ratio to \<open>+infinity\<close> if the mean excess return is
  positive and to 0 otherwise.  Neither value is NaN.
\<close>

theorem zero_deviation_ratios:
  assumes "2 \<le> length (pct_change vals)" and "0 \<notin> set vals"
  shows "(\<not> above_threshold (std (excess_returns_of vals)) \<longrightarrow>
            sharpe_ratio (update_performance_metrics vals pm) = Some 0) \<and>
         (\<not> above_threshold (std (filter (\<lambda>e. e < 0) (excess_returns_of vals))) \<longrightarrow>
            sortino_ratio (update_performance_metrics vals pm) =
              Some (if mean (excess_returns_of vals) > 0 then PosInf else Finite 0))"
  using assms(1)
  by (simp add: update_performance_metrics_def excess_returns_of_def Let_def)

theorem zero_deviation_ratios_witness:
  "sharpe_ratio
     (update_performance_metrics [100, 99, 9801 / 100, 970299 / 10000]
        \<lparr>sharpe_ratio = None, sortino_ratio = None\<rparr>) = Some 0 \<and>
   sortino_ratio
     (update_performance_metrics [100, 99, 9801 / 100, 970299 / 10000]
        \<lparr>sharpe_ratio = None, sortino_ratio = None\<rparr>) = Some (Finite 0)"
  using zero_deviation_ratios
    [of "[100, 99, 9801 / 100, 970299 / 10000]" "\<lparr>sharpe_ratio = None, sortino_ratio = None\<rparr>"]
  by (simp add: excess_returns_of_def daily_risk_free_rate_def std_def mean_def
      above_threshold_def)

text \<open>The statement of C9 for the Sortino ratio fails: lines 538 and 539 store
  \<^verbatim>\<open>float("inf")\<close> when the mean excess return is positive.  The values 100, 99, 98.01
  and 196.02 have the daily returns -1 percent, -1 percent and 100 percent; the two
  negative excess returns are equal, their standard deviation is 0, the mean excess
  return is positive, and the Sortino ratio becomes \<open>+infinity\<close>.\<close>

theorem sortino_infinite_counterexample:
  "std (filter (\<lambda>e. e < 0) (excess_returns_of [100, 99, 9801 / 100, 19602 / 100])) = Some 0 \<and>
   sortino_ratio
     (update_performance_metrics [100, 99, 9801 / 100, 19602 / 100]
        \<lparr>sharpe_ratio = None, sortino_ratio = None\<rparr>) = Some PosInf"
  by (simp add: update_performance_metrics_def excess_returns_of_def daily_risk_free_rate_def
      std_def mean_def above_threshold_def Let_def)

end
